theory Spec2Isabelle
  imports Main
begin

section \<open>Data model\<close>

text \<open>
  The application is a React front end. Two source files carry the mechanism verified here:
  \<^verbatim>\<open>hooks/useApiCache.js\<close> (a module-level \<^verbatim>\<open>Map\<close> shared by all instances of the
  hook \<^verbatim>\<open>useApiCache\<close>) and the \<^verbatim>\<open>StudyProvider\<close> component, which uses the hook for
  the keys \<^verbatim>\<open>dashboard\<close> and \<^verbatim>\<open>timetables\<close> and offers the session operations.

  JavaScript runs both on one event loop. An \<^verbatim>\<open>async\<close> function is therefore modelled as
  one state transformer per synchronous segment: the segment up to its \<^verbatim>\<open>await\<close>, and the
  segment that runs once the awaited promise has settled. The outcome of the awaited call
  (\<open>Inr\<close> a response, \<open>Inl\<close> the thrown error) and the value of \<^verbatim>\<open>Date.now()\<close> are
  inputs of the segment.

  A \<^verbatim>\<open>useState\<close> cell is a field of the state; its setter writes the field, and an updater
  function passed to the setter reads it. The body of the component reads a cell into a
  \<^verbatim>\<open>const\<close> when it renders, and a function built by \<^verbatim>\<open>useCallback\<close> closes over the
  constants of the render that built it. Where such a function reads a cell through its
  closure, the value it captured is a parameter of the model of the function: calls through
  one function reference share it, whatever has been written to the cell since.
\<close>

text \<open>A thrown JavaScript error; the code inspects \<^verbatim>\<open>err.name\<close> only.\<close>

record js_error =
  name :: string
  message :: string

text \<open>The object stored in the module-level map: \<^verbatim>\<open>{ data: result, timestamp: Date.now() }\<close>.
  Its \<^verbatim>\<open>data\<close> field is called \<open>entry_data\<close> here, since the hook's own state cell is
  called \<open>data\<close> too.\<close>

record 'v cache_entry =
  entry_data :: 'v
  timestamp :: int

text \<open>The state cells of one instance of \<^verbatim>\<open>useApiCache\<close>: three \<^verbatim>\<open>useState\<close> cells and
  the \<^verbatim>\<open>useRef\<close> cell. An \<^verbatim>\<open>AbortController\<close> is identified by its position in the list
  of all controllers created so far; \<open>None\<close> is \<^verbatim>\<open>null\<close>.\<close>

record 'v hook =
  data :: "'v option"
  loading :: bool
  error :: "js_error option"
  abortControllerRef :: "nat option"

text \<open>A call of \<^verbatim>\<open>fetcher(signal)\<close> whose promise has not settled yet, together with what
  the suspended \<^verbatim>\<open>fetchData\<close> closure holds: the hook instance whose setters it calls and
  the \<^verbatim>\<open>key\<close> it was started for.\<close>

record request =
  owner :: nat
  req_key :: string
  signal :: nat

text \<open>A session record as the server returns it; every field may be absent.\<close>

record session =
  currentSubject :: "string option"
  elapsedTime :: "int option"
  startTime :: "int option"
  status :: "string option"

text \<open>The whole client state. \<open>cache\<close> is the module-level map, \<open>controllers\<close> the aborted
  flag of every \<^verbatim>\<open>AbortController\<close> created so far, \<open>hooks\<close> the instances of the hook,
  \<open>pending\<close> the unsettled fetcher calls in the order they were issued, \<open>console\<close> the lines
  written by \<^verbatim>\<open>console.error\<close>. The remaining fields are the state cells of
  \<^verbatim>\<open>StudyProvider\<close>; of \<^verbatim>\<open>studyData\<close> the two lists that the provider's own operations
  write are kept.\<close>

record 'v app =
  cache :: "string \<rightharpoonup> 'v cache_entry"
  controllers :: "bool list"
  hooks :: "nat \<Rightarrow> 'v hook"
  pending :: "request list"
  console :: "(string \<times> js_error) list"
  "notes" :: "'v list"
  completedSubjects :: "'v list"
  currentSession :: "session option"
  isStudying :: bool
  loadingNotes :: bool
  lastFetch :: int

definition CACHE_DURATION :: int where
  "CACHE_DURATION = 5 * 60 * 1000"

definition init :: "'v app" where
  "init = \<lparr> cache = Map.empty, controllers = [],
            hooks = (\<lambda>_. \<lparr> data = None, loading = True, error = None, abortControllerRef = None \<rparr>),
            pending = [], console = [],
            notes = [], completedSubjects = [],
            currentSession = None, isStudying = False, loadingNotes = False, lastFetch = 0 \<rparr>"

section \<open>The fetch cache: useApiCache\<close>

text \<open>\<^verbatim>\<open>if (abortControllerRef.current) abortControllerRef.current.abort();\<close>\<close>

definition abort :: "nat option \<Rightarrow> bool list \<Rightarrow> bool list" where
  "abort ref cs = (case ref of None \<Rightarrow> cs | Some c \<Rightarrow> cs[c := True])"

text \<open>The cache test of \<^verbatim>\<open>fetchData\<close>:
  \<^verbatim>\<open>cached && Date.now() - cached.timestamp < CACHE_DURATION\<close>.\<close>

definition cache_hit :: "int \<Rightarrow> 'v cache_entry option \<Rightarrow> bool" where
  "cache_hit now cached =
     (case cached of None \<Rightarrow> False | Some c \<Rightarrow> now - timestamp c < CACHE_DURATION)"

text \<open>\<^verbatim>\<open>fetchData\<close> of hook instance \<open>i\<close>, from its first line to its \<^verbatim>\<open>await\<close>. On a hit it
  sets \<open>data\<close> and \<open>loading\<close> and returns. Otherwise it aborts the controller in the ref,
  stores a new one, sets \<open>loading\<close>, clears \<open>error\<close> and calls the fetcher with the new
  signal, which adds one entry to \<open>pending\<close>.\<close>

definition fetchData :: "int \<Rightarrow> nat \<Rightarrow> string \<Rightarrow> 'v app \<Rightarrow> 'v app" where
  "fetchData now i key s =
     (let h = hooks s i; cached = cache s key in
      if cache_hit now cached then
        s\<lparr> hooks := (hooks s)(i := h\<lparr> data := map_option entry_data cached, loading := False \<rparr>) \<rparr>
      else
        (let cs = abort (abortControllerRef h) (controllers s); c = length cs in
         s\<lparr> controllers := cs @ [False],
            hooks := (hooks s)(i := h\<lparr> abortControllerRef := Some c, loading := True, error := None \<rparr>),
            pending := pending s @ [\<lparr> owner = i, req_key = key, signal = c \<rparr>] \<rparr>))"

text \<open>The rest of \<^verbatim>\<open>fetchData\<close>, run when the promise of request \<open>r\<close> has settled: the
  statements after the \<^verbatim>\<open>await\<close> on success, the \<^verbatim>\<open>catch\<close> block on failure, and the
  \<^verbatim>\<open>finally\<close> block in both cases.\<close>

definition fetchData_settled :: "int \<Rightarrow> request \<Rightarrow> js_error + 'v \<Rightarrow> 'v app \<Rightarrow> 'v app" where
  "fetchData_settled now r outcome s =
     (let i = owner r;
          s1 = (case outcome of
                  Inr result \<Rightarrow>
                    s\<lparr> cache := (cache s)(req_key r \<mapsto> \<lparr> entry_data = result, timestamp = now \<rparr>),
                       hooks := (hooks s)(i := (hooks s i)\<lparr> data := Some result \<rparr>) \<rparr>
                | Inl err \<Rightarrow>
                    if name err \<noteq> ''AbortError'' then
                      s\<lparr> hooks := (hooks s)(i := (hooks s i)\<lparr> error := Some err \<rparr>),
                         console := console s @ [(''API Error for '' @ req_key r @ '':'', err)] \<rparr>
                    else s)
      in s1\<lparr> hooks := (hooks s1)(i := (hooks s1 i)\<lparr> loading := False \<rparr>) \<rparr>)"

text \<open>The cleanup function of the effect of hook instance \<open>i\<close>.\<close>

definition cleanup :: "nat \<Rightarrow> 'v app \<Rightarrow> 'v app" where
  "cleanup i s = s\<lparr> controllers := abort (abortControllerRef (hooks s i)) (controllers s) \<rparr>"

text \<open>\<^verbatim>\<open>invalidateCache\<close> of a hook instance rendered with \<open>key\<close>: \<^verbatim>\<open>cache.delete(key)\<close>.\<close>

definition invalidateCache :: "string \<Rightarrow> 'v app \<Rightarrow> 'v app" where
  "invalidateCache key s = s\<lparr> cache := (cache s)(key := None) \<rparr>"

section \<open>Runs of the fetch cache\<close>

text \<open>What can happen to the cache between two turns of the event loop: the effect of hook
  instance \<open>i\<close> runs \<^verbatim>\<open>fetchData\<close> for a key, its cleanup runs, the oldest-but-\<open>j\<close> pending
  fetcher call settles, or a consumer calls \<^verbatim>\<open>invalidateCache\<close>. Settling removes the
  request from \<open>pending\<close> and resumes the suspended \<^verbatim>\<open>fetchData\<close>; a position that names no
  pending request is no event at all.\<close>

datatype 'v event =
    Effect nat string int
  | Cleanup nat
  | Settled nat "js_error + 'v" int
  | Invalidate string

fun step :: "'v event \<Rightarrow> 'v app \<Rightarrow> 'v app" where
  "step (Effect i key now) s = fetchData now i key s"
| "step (Cleanup i) s = cleanup i s"
| "step (Settled j outcome now) s =
     (if j < length (pending s)
      then fetchData_settled now (pending s ! j) outcome
             (s\<lparr> pending := take j (pending s) @ drop (Suc j) (pending s) \<rparr>)
      else s)"
| "step (Invalidate key) s = invalidateCache key s"

fun run :: "'v event list \<Rightarrow> 'v app \<Rightarrow> 'v app" where
  "run [] s = s"
| "run (e # es) s = run es (step e s)"



text \<open>The successful fetches of a run: for each settlement with a response, the key of the
  settled request together with the entry that \<^verbatim>\<open>cache.set\<close> stores for it.\<close>

fun completed :: "'v event \<Rightarrow> 'v app \<Rightarrow> (string \<times> 'v cache_entry) list" where
  "completed (Settled j (Inr result) now) s =
     (if j < length (pending s)
      then [(req_key (pending s ! j), \<lparr> entry_data = result, timestamp = now \<rparr>)] else [])"
| "completed _ s = []"

fun completed_fetches :: "'v event list \<Rightarrow> 'v app \<Rightarrow> (string \<times> 'v cache_entry) list" where
  "completed_fetches [] s = []"
| "completed_fetches (e # es) s = completed e s @ completed_fetches es (step e s)"


section \<open>The session coordinator: StudyProvider\<close>

text \<open>\<^verbatim>\<open>console.error(msg, err)\<close>\<close>

definition console_error :: "string \<Rightarrow> js_error \<Rightarrow> 'v app \<Rightarrow> 'v app" where
  "console_error msg err s = s\<lparr> console := console s @ [(msg, err)] \<rparr>"

text \<open>\<^verbatim>\<open>fetchDashboardAndTimetables\<close>, exported to the UI as the coordinated refresh. It has no
  \<^verbatim>\<open>await\<close>, so it is one segment. The guard reads \<^verbatim>\<open>lastFetch\<close> through the closure:
  \<open>seen\<close> is the value of the cell in the render that built the function reference being
  called. \<^verbatim>\<open>setLastFetch(now)\<close> writes the cell. \<^verbatim>\<open>invalidateDashboard\<close> and
  \<^verbatim>\<open>invalidateTimetables\<close> are the \<^verbatim>\<open>invalidateCache\<close> functions of the hook instances for
  the two keys.\<close>

definition fetchDashboardAndTimetables :: "int \<Rightarrow> int \<Rightarrow> 'v app \<Rightarrow> 'v app" where
  "fetchDashboardAndTimetables seen now s =
     (if now - seen < 2000 then s
      else invalidateCache ''timetables'' (invalidateCache ''dashboard'' (s\<lparr> lastFetch := now \<rparr>)))"

text \<open>JavaScript truthiness of an optional string field: absent and the empty string are
  falsy.\<close>

definition truthy :: "string option \<Rightarrow> bool" where
  "truthy x = (case x of None \<Rightarrow> False | Some str \<Rightarrow> str \<noteq> [])"

text \<open>\<^verbatim>\<open>fetchCurrentSession\<close> once \<^verbatim>\<open>GET /api/study/state\<close> has settled; \<open>None\<close> is a response
  without a body.\<close>

definition fetchCurrentSession :: "js_error + session option \<Rightarrow> 'v app \<Rightarrow> 'v app" where
  "fetchCurrentSession res s =
     (case res of
        Inl err \<Rightarrow> console_error ''Failed to fetch session state:'' err s
      | Inr None \<Rightarrow> s
      | Inr (Some d) \<Rightarrow>
          if truthy (currentSubject d)
          then s\<lparr> currentSession := Some d, isStudying := (status d = Some ''active'') \<rparr>
          else s)"

text \<open>\<^verbatim>\<open>fetchCompletedSubjects\<close> once \<^verbatim>\<open>GET /api/study/sessions/today\<close> has settled;
  \<^verbatim>\<open>res.data || []\<close> turns a missing body into the empty list.\<close>

definition fetchCompletedSubjects :: "js_error + 'v list option \<Rightarrow> 'v app \<Rightarrow> 'v app" where
  "fetchCompletedSubjects res s =
     (case res of
        Inr d \<Rightarrow> s\<lparr> completedSubjects := (case d of None \<Rightarrow> [] | Some xs \<Rightarrow> xs) \<rparr>
      | Inl err \<Rightarrow>
          (console_error ''Failed to fetch completed subjects:'' err s)\<lparr> completedSubjects := [] \<rparr>)"

text \<open>\<^verbatim>\<open>fetchSessionStats\<close> once its request has settled: the value it returns (\<open>None\<close> is
  \<^verbatim>\<open>null\<close>) and the state.\<close>

definition fetchSessionStats :: "js_error + 'v \<Rightarrow> 'v app \<Rightarrow> 'v option \<times> 'v app" where
  "fetchSessionStats res s =
     (case res of
        Inr d \<Rightarrow> (Some d, s)
      | Inl err \<Rightarrow> (None, console_error ''Failed to fetch session stats:'' err s))"

text \<open>\<^verbatim>\<open>startStudySession\<close> once \<^verbatim>\<open>POST /api/study/state\<close> has settled; the subject and the
  start time only shape the request.\<close>

definition startStudySession :: "js_error + session option \<Rightarrow> 'v app \<Rightarrow> 'v app" where
  "startStudySession res s =
     (case res of
        Inr d \<Rightarrow> s\<lparr> currentSession := d, isStudying := True \<rparr>
      | Inl err \<Rightarrow> console_error ''Failed to start session:'' err s)"

text \<open>\<^verbatim>\<open>setCurrentSession(prev => ({ ...prev, status }))\<close>: spreading \<^verbatim>\<open>null\<close> gives an object
  with the status alone.\<close>

definition with_status :: "string \<Rightarrow> session option \<Rightarrow> session option" where
  "with_status st prev =
     (case prev of
        None \<Rightarrow> Some \<lparr> currentSubject = None, elapsedTime = None, startTime = None, status = Some st \<rparr>
      | Some p \<Rightarrow> Some (p\<lparr> status := Some st \<rparr>))"

definition pauseSession :: "js_error + unit \<Rightarrow> 'v app \<Rightarrow> 'v app" where
  "pauseSession res s =
     (case res of
        Inr _ \<Rightarrow> s\<lparr> currentSession := with_status ''paused'' (currentSession s), isStudying := False \<rparr>
      | Inl err \<Rightarrow> console_error ''Failed to pause session:'' err s)"

definition resumeSession :: "js_error + unit \<Rightarrow> 'v app \<Rightarrow> 'v app" where
  "resumeSession res s =
     (case res of
        Inr _ \<Rightarrow> s\<lparr> currentSession := with_status ''active'' (currentSession s), isStudying := True \<rparr>
      | Inl err \<Rightarrow> console_error ''Failed to resume session:'' err s)"

text \<open>\<^verbatim>\<open>endSession\<close>. It closes over \<^verbatim>\<open>currentSession\<close> and over the reference to
  \<^verbatim>\<open>fetchDashboardAndTimetables\<close> of the render that built it: \<open>seen_session\<close> is the
  session and \<open>seen\<close> the \<^verbatim>\<open>lastFetch\<close> which that render read. \<open>created\<close> is the outcome
  of \<^verbatim>\<open>POST /api/study/sessions\<close>, \<open>deleted\<close> that of \<^verbatim>\<open>DELETE /api/study/state\<close>, which
  is sent only after the first has succeeded. Reading \<^verbatim>\<open>currentSession.currentSubject\<close> of
  \<^verbatim>\<open>null\<close> throws a \<^verbatim>\<open>TypeError\<close> inside the \<^verbatim>\<open>try\<close> block before anything is sent;
  its message is the engine's, \<open>engine_message\<close>. The two refreshes at the end are not
  awaited; \<open>today\<close> is the outcome of the request that \<^verbatim>\<open>fetchCompletedSubjects\<close> sends,
  applied where it is called.\<close>

definition endSession ::
  "session option \<Rightarrow> int \<Rightarrow> string \<Rightarrow> js_error + unit \<Rightarrow> js_error + unit \<Rightarrow> int \<Rightarrow>
     js_error + 'v list option \<Rightarrow> 'v app \<Rightarrow> 'v app" where
  "endSession seen_session seen engine_message created deleted now today s =
     (case seen_session of
        None \<Rightarrow>
          console_error ''Failed to end session:''
            \<lparr> name = ''TypeError'', message = engine_message \<rparr> s
      | Some cur \<Rightarrow>
          (case created of
             Inl err \<Rightarrow> console_error ''Failed to end session:'' err s
           | Inr _ \<Rightarrow>
               (case deleted of
                  Inl err \<Rightarrow> console_error ''Failed to end session:'' err s
                | Inr _ \<Rightarrow>
                    fetchCompletedSubjects today
                      (fetchDashboardAndTimetables seen now
                         (s\<lparr> currentSession := None, isStudying := False \<rparr>)))))"

text \<open>\<^verbatim>\<open>fetchNotes\<close> up to its \<^verbatim>\<open>await\<close>, and from there on: the assignment on success, the
  \<^verbatim>\<open>catch\<close> block on failure, the \<^verbatim>\<open>finally\<close> block in both cases.\<close>

definition fetchNotes :: "'v app \<Rightarrow> 'v app" where
  "fetchNotes s = s\<lparr> loadingNotes := True \<rparr>"

definition fetchNotes_settled :: "js_error + 'v list \<Rightarrow> 'v app \<Rightarrow> 'v app" where
  "fetchNotes_settled res s =
     (case res of
        Inr d \<Rightarrow> s\<lparr> notes := d \<rparr>
      | Inl err \<Rightarrow> console_error ''Failed to fetch notes:'' err s)\<lparr> loadingNotes := False \<rparr>"

section \<open>Claims about the fetch cache\<close>

text \<open>
  C1. A read of a key whose cache entry is younger than the TTL of five minutes
  (300000 ms) returns the cached value with \<open>loading = False\<close> and does not call the
  fetcher: no request is added, no controller is created or aborted, and the cache itself
  is left as it was.
\<close>

theorem C1_live_entry_served_without_fetch:
  assumes "cache s key = Some cached"
      and "now - timestamp cached < 5 * 60 * 1000"
  shows "data (hooks (fetchData now i key s) i) = Some (entry_data cached)
       \<and> loading (hooks (fetchData now i key s) i) = False
       \<and> pending (fetchData now i key s) = pending s
       \<and> controllers (fetchData now i key s) = controllers s
       \<and> cache (fetchData now i key s) = cache s"
  using assms by (simp add: fetchData_def cache_hit_def CACHE_DURATION_def)

theorem C1_live_entry_served_without_fetch_witness:
  "cache (fetchData_settled 0 \<lparr> owner = 0, req_key = ''dashboard'', signal = 0 \<rparr> (Inr (30::int))
            (fetchData 0 0 ''dashboard'' init)) ''dashboard''
     = Some \<lparr> entry_data = 30, timestamp = 0 \<rparr>
   \<and> (1000::int) - timestamp \<lparr> entry_data = 30::int, timestamp = 0 \<rparr> < 5 * 60 * 1000
   \<and> data (hooks (fetchData 1000 1 ''dashboard''
        (fetchData_settled 0 \<lparr> owner = 0, req_key = ''dashboard'', signal = 0 \<rparr> (Inr (30::int))
            (fetchData 0 0 ''dashboard'' init))) 1) = Some 30
   \<and> pending (fetchData 1000 1 ''dashboard''
        (fetchData_settled 0 \<lparr> owner = 0, req_key = ''dashboard'', signal = 0 \<rparr> (Inr (30::int))
            (fetchData 0 0 ''dashboard'' init)))
     = pending (fetchData_settled 0 \<lparr> owner = 0, req_key = ''dashboard'', signal = 0 \<rparr> (Inr (30::int))
            (fetchData 0 0 ''dashboard'' init))"
proof -
  let ?s = "fetchData_settled 0 \<lparr> owner = 0, req_key = ''dashboard'', signal = 0 \<rparr> (Inr (30::int))
              (fetchData 0 0 ''dashboard'' init)"
  have c: "cache ?s ''dashboard'' = Some \<lparr> entry_data = 30, timestamp = 0 \<rparr>"
    by (simp add: fetchData_settled_def fetchData_def cache_hit_def init_def)
  have a: "(1000::int) - timestamp \<lparr> entry_data = 30::int, timestamp = 0 \<rparr> < 5 * 60 * 1000"
    by simp
  from C1_live_entry_served_without_fetch [OF c a, of 1] c a show ?thesis
    by simp
qed

section \<open>Facts about the controllers and the cache map\<close>

lemma cache_fetchData: "cache (fetchData now i key s) = cache s"
  by (simp add: fetchData_def Let_def)

lemma cache_settled_failure: "cache (fetchData_settled now r (Inl err) s) = cache s"
  by (simp add: fetchData_settled_def Let_def)

lemma cache_step:
  assumes "cache (step x s) key = Some e"
  shows "cache s key = Some e \<or> (key, e) \<in> set (completed x s)"
proof (cases x)
  case (Effect i k now)
  with assms show ?thesis by (simp add: cache_fetchData)
next
  case (Cleanup i)
  with assms show ?thesis by (simp add: cleanup_def)
next
  case (Settled j outcome now)
  with assms show ?thesis
    by (cases outcome) (auto simp: fetchData_settled_def Let_def split: if_splits)
next
  case (Invalidate k)
  with assms show ?thesis by (auto simp: invalidateCache_def split: if_splits)
qed

lemma cache_run:
  "cache (run es s) key = Some e \<Longrightarrow>
     cache s key = Some e \<or> (key, e) \<in> set (completed_fetches es s)"
proof (induction es arbitrary: s)
  case Nil
  then show ?case by simp
next
  case (Cons x es)
  from Cons.prems have "cache (run es (step x s)) key = Some e" by simp
  from Cons.IH [OF this] show ?case
  proof
    assume "cache (step x s) key = Some e"
    from cache_step [OF this] show ?thesis by auto
  next
    assume "(key, e) \<in> set (completed_fetches es (step x s))"
    then show ?thesis by simp
  qed
qed
















lemma lastFetch_step: "lastFetch (step e s) = lastFetch s"
  by (cases e)
     (simp_all add: fetchData_def fetchData_settled_def cleanup_def invalidateCache_def Let_def
        split: sum.split)

lemma lastFetch_run: "lastFetch (run es s) = lastFetch s"
  by (induction es arbitrary: s) (simp_all add: lastFetch_step)

section \<open>Claims about cancellation, invalidation and the cache map\<close>

text \<open>
  C2. A fetch that fails because a superseding request aborted it should change nothing:
  not \<open>data\<close>, \<open>error\<close>, \<open>loading\<close> or the cache, and should not be shown as an error.
  The code does not achieve this. Hook instance 0 starts a fetch for \<^verbatim>\<open>dashboard\<close>, its
  effect is cleaned up (which aborts the controller) and re-run for \<^verbatim>\<open>timetables\<close>, and
  then the aborted fetch is rejected. When the rejection is an \<^verbatim>\<open>AbortError\<close>, the
  \<^verbatim>\<open>finally\<close> block still sets \<open>loading\<close> from true to false while the second fetch is in
  flight. The fetchers of \<^verbatim>\<open>StudyProvider\<close> call \<^verbatim>\<open>axios.get\<close> with the signal, and an
  aborted request of that library is rejected with an error named \<^verbatim>\<open>CanceledError\<close>: the
  test \<^verbatim>\<open>err.name !== "AbortError"\<close> lets it through, so the cancellation is stored in
  \<open>error\<close> and written to the console.
\<close>

theorem C2_cancelled_fetch_changes_state:
  "loading (hooks (fetchData 1 0 ''timetables''
                     (cleanup 0 (fetchData 0 0 ''dashboard'' (init :: int app)))) 0)
   \<and> \<not> loading (hooks (fetchData_settled 2 \<lparr> owner = 0, req_key = ''dashboard'', signal = 0 \<rparr>
                           (Inl \<lparr> name = ''AbortError'', message = ''aborted'' \<rparr>)
                           (fetchData 1 0 ''timetables''
                              (cleanup 0 (fetchData 0 0 ''dashboard'' (init :: int app))))) 0)
   \<and> error (hooks (fetchData_settled 2 \<lparr> owner = 0, req_key = ''dashboard'', signal = 0 \<rparr>
                           (Inl \<lparr> name = ''CanceledError'', message = ''canceled'' \<rparr>)
                           (fetchData 1 0 ''timetables''
                              (cleanup 0 (fetchData 0 0 ''dashboard'' (init :: int app))))) 0)
       = Some \<lparr> name = ''CanceledError'', message = ''canceled'' \<rparr>
   \<and> console (fetchData_settled 2 \<lparr> owner = 0, req_key = ''dashboard'', signal = 0 \<rparr>
                           (Inl \<lparr> name = ''CanceledError'', message = ''canceled'' \<rparr>)
                           (fetchData 1 0 ''timetables''
                              (cleanup 0 (fetchData 0 0 ''dashboard'' (init :: int app)))))
       = [(''API Error for dashboard:'', \<lparr> name = ''CanceledError'', message = ''canceled'' \<rparr>)]"
  by (simp add: fetchData_def fetchData_settled_def cleanup_def cache_hit_def abort_def init_def
        Let_def)




text \<open>
  C5. \<^verbatim>\<open>invalidateCache\<close> removes the entry of its key whatever its age and touches neither
  the pending requests, nor the controllers, nor any hook instance; a read of the key right
  after it misses the cache and calls the fetcher, which adds one pending request.
\<close>

theorem C5_invalidate_then_read_refetches:
  "cache (invalidateCache key s) key = None
   \<and> pending (invalidateCache key s) = pending s
   \<and> controllers (invalidateCache key s) = controllers s
   \<and> hooks (invalidateCache key s) = hooks s
   \<and> pending (fetchData now i key (invalidateCache key s))
       = pending s @ [\<lparr> owner = i, req_key = key, signal = length (controllers s) \<rparr>]"
  by (simp add: invalidateCache_def fetchData_def cache_hit_def abort_def Let_def
        split: option.split)

text \<open>
  C9. Starting a fetch does not write the cache map, and neither does a fetch that settles
  with a failure, cancelled or not. Hence every entry found in the cache after a run from
  the initial state is the entry stored by a successful fetch of that run for that key: its
  result and the time of its completion.
\<close>

theorem C9_cache_written_on_success_only:
  "cache (fetchData now i key s) = cache s
   \<and> cache (fetchData_settled now r (Inl err) s) = cache s
   \<and> (cache (run es init) key = Some e \<longrightarrow> (key, e) \<in> set (completed_fetches es init))"
  using cache_run [of es init key e]
  by (simp add: cache_fetchData cache_settled_failure init_def)

theorem C9_cache_written_on_success_only_witness:
  "cache (run [Effect 0 ''dashboard'' 0, Settled 0 (Inr (30::int)) 5] init) ''dashboard''
     = Some \<lparr> entry_data = 30, timestamp = 5 \<rparr>
   \<and> (''dashboard'', \<lparr> entry_data = 30::int, timestamp = 5 \<rparr>)
       \<in> set (completed_fetches [Effect 0 ''dashboard'' 0, Settled 0 (Inr 30) 5] init)"
proof -
  have c: "cache (run [Effect 0 ''dashboard'' 0, Settled 0 (Inr (30::int)) 5] init) ''dashboard''
             = Some \<lparr> entry_data = 30, timestamp = 5 \<rparr>"
    by (simp add: fetchData_def fetchData_settled_def cache_hit_def abort_def init_def Let_def)
  from C9_cache_written_on_success_only
         [where key = "''dashboard''"
            and es = "[Effect 0 ''dashboard'' 0, Settled 0 (Inr (30::int)) 5]"
            and e = "\<lparr> entry_data = 30, timestamp = 5 \<rparr>"] c
  show ?thesis
    by (simp add: fetchData_def cache_hit_def abort_def init_def Let_def)
qed

section \<open>Claims about the session coordinator\<close>

text \<open>
  C3. Of two invocations of the refresh less than 2000 ms apart, the second should be a
  no-op. The code does not achieve this for two calls through one function reference: the
  guard compares with the \<^verbatim>\<open>lastFetch\<close> that the closure captured, which the first call does
  not change. Both calls below go through the reference built by a render of the initial
  state, at 5000 and at 5001. The second call rewrites the timestamp, and it deletes the
  \<^verbatim>\<open>dashboard\<close> entry that a fetch, started at 0 and settled at 5000 after the first call,
  had just stored.
\<close>

theorem C3_one_reference_accepts_twice:
  "lastFetch (fetchDashboardAndTimetables (lastFetch (init :: int app)) 5000 init) = 5000
   \<and> lastFetch (fetchDashboardAndTimetables (lastFetch (init :: int app)) 5001
        (fetchDashboardAndTimetables (lastFetch (init :: int app)) 5000 init)) = 5001
   \<and> cache (fetchData_settled 5000 \<lparr> owner = 0, req_key = ''dashboard'', signal = 0 \<rparr> (Inr 30)
        (fetchDashboardAndTimetables (lastFetch (init :: int app)) 5000
           (fetchData 0 0 ''dashboard'' init))) ''dashboard''
       = Some \<lparr> entry_data = 30, timestamp = 5000 \<rparr>
   \<and> cache (fetchDashboardAndTimetables (lastFetch (init :: int app)) 5001
        (fetchData_settled 5000 \<lparr> owner = 0, req_key = ''dashboard'', signal = 0 \<rparr> (Inr 30)
           (fetchDashboardAndTimetables (lastFetch (init :: int app)) 5000
              (fetchData 0 0 ''dashboard'' init)))) ''dashboard''
       = None"
  by (simp add: fetchDashboardAndTimetables_def invalidateCache_def fetchData_def
        fetchData_settled_def cache_hit_def abort_def init_def Let_def)

text \<open>
  C10. The provider starts with \<open>lastFetch = 0\<close>, and no event of the cache writes it. So
  every render before the first accepted refresh reads 0, and the first refresh, through a
  reference built by any of them and at any time of at least 2000 ms, is accepted: it
  records the time and removes both cache entries, whatever the cache holds by then.
\<close>

theorem C10_first_refresh_is_accepted:
  assumes "2000 \<le> now"
  shows "lastFetch (init :: 'v app) = 0
       \<and> lastFetch (fetchDashboardAndTimetables (lastFetch (run es' (init :: 'v app))) now
                      (run es (init :: 'v app))) = now
       \<and> cache (fetchDashboardAndTimetables (lastFetch (run es' (init :: 'v app))) now
                  (run es (init :: 'v app))) ''dashboard'' = None
       \<and> cache (fetchDashboardAndTimetables (lastFetch (run es' (init :: 'v app))) now
                  (run es (init :: 'v app))) ''timetables'' = None"
proof -
  have "lastFetch (run es' (init :: 'v app)) = 0"
    by (simp add: lastFetch_run init_def)
  with assms show ?thesis
    by (simp add: fetchDashboardAndTimetables_def invalidateCache_def init_def)
qed

theorem C10_first_refresh_is_accepted_witness:
  "(2000::int) \<le> 2000
   \<and> cache (run [Effect 0 ''dashboard'' 0, Settled 0 (Inr (30::int)) 5] init) ''dashboard''
       = Some \<lparr> entry_data = 30, timestamp = 5 \<rparr>
   \<and> cache (fetchDashboardAndTimetables (lastFetch (run [Effect 0 ''dashboard'' 0] (init :: int app)))
              2000 (run [Effect 0 ''dashboard'' 0, Settled 0 (Inr (30::int)) 5] init)) ''dashboard''
       = None
   \<and> lastFetch (fetchDashboardAndTimetables (lastFetch (run [Effect 0 ''dashboard'' 0] (init :: int app)))
              2000 (run [Effect 0 ''dashboard'' 0, Settled 0 (Inr (30::int)) 5] init)) = 2000"
proof -
  have a: "(2000::int) \<le> 2000" by simp
  have c: "cache (run [Effect 0 ''dashboard'' 0, Settled 0 (Inr (30::int)) 5] init) ''dashboard''
             = Some \<lparr> entry_data = 30, timestamp = 5 \<rparr>"
    by (simp add: fetchData_def fetchData_settled_def cache_hit_def abort_def init_def Let_def)
  from C10_first_refresh_is_accepted
         [OF a, where es' = "[Effect 0 ''dashboard'' 0] :: int event list"
            and es = "[Effect 0 ''dashboard'' 0, Settled 0 (Inr (30::int)) 5]"] c
  show ?thesis by simp
qed

text \<open>
  C6. When creating the completed session fails, or deleting the current state fails,
  \<^verbatim>\<open>endSession\<close> leaves \<open>currentSession\<close> and \<open>isStudying\<close> as they were; indeed the
  whole state is the one before the call with one more line on the console, so neither the
  clearing of the session nor the refresh has run. This holds whatever the closure of
  \<^verbatim>\<open>endSession\<close> captured.
\<close>

theorem C6_failed_endSession_keeps_session:
  assumes "created = Inl err \<or> deleted = Inl err"
  shows "currentSession (endSession seen_session seen engine_message created deleted now today s)
           = currentSession s
       \<and> isStudying (endSession seen_session seen engine_message created deleted now today s)
           = isStudying s
       \<and> (\<exists>e. endSession seen_session seen engine_message created deleted now today s
                = console_error ''Failed to end session:'' e s)"
  using assms
  by (auto simp: endSession_def console_error_def split: option.split sum.split)

theorem C6_failed_endSession_keeps_session_witness:
  "((Inr () :: js_error + unit) = Inl \<lparr> name = ''AxiosError'', message = ''Network Error'' \<rparr>
      \<or> (Inl \<lparr> name = ''AxiosError'', message = ''Network Error'' \<rparr> :: js_error + unit)
          = Inl \<lparr> name = ''AxiosError'', message = ''Network Error'' \<rparr>)
   \<and> isStudying (endSession
        (Some \<lparr> currentSubject = Some ''Maths'', elapsedTime = Some 0, startTime = Some 0,
                 status = Some ''active'' \<rparr>) 0 []
        (Inr ()) (Inl \<lparr> name = ''AxiosError'', message = ''Network Error'' \<rparr>) 9000 (Inr None)
        ((init :: int app)\<lparr> currentSession :=
            Some \<lparr> currentSubject = Some ''Maths'', elapsedTime = Some 0, startTime = Some 0,
                   status = Some ''active'' \<rparr>,
           isStudying := True \<rparr>))
   \<and> currentSession (endSession
        (Some \<lparr> currentSubject = Some ''Maths'', elapsedTime = Some 0, startTime = Some 0,
                 status = Some ''active'' \<rparr>) 0 []
        (Inr ()) (Inl \<lparr> name = ''AxiosError'', message = ''Network Error'' \<rparr>) 9000 (Inr None)
        ((init :: int app)\<lparr> currentSession :=
            Some \<lparr> currentSubject = Some ''Maths'', elapsedTime = Some 0, startTime = Some 0,
                   status = Some ''active'' \<rparr>,
           isStudying := True \<rparr>))
       = Some \<lparr> currentSubject = Some ''Maths'', elapsedTime = Some 0, startTime = Some 0,
                status = Some ''active'' \<rparr>"
proof -
  have a: "(Inr () :: js_error + unit) = Inl \<lparr> name = ''AxiosError'', message = ''Network Error'' \<rparr>
      \<or> (Inl \<lparr> name = ''AxiosError'', message = ''Network Error'' \<rparr> :: js_error + unit)
          = Inl \<lparr> name = ''AxiosError'', message = ''Network Error'' \<rparr>"
    by simp
  from C6_failed_endSession_keeps_session
         [OF a, where seen_session =
              "Some \<lparr> currentSubject = Some ''Maths'', elapsedTime = Some 0, startTime = Some 0,
                      status = Some ''active'' \<rparr>"
            and seen = 0 and engine_message = "[]" and now = 9000 and today = "Inr None"
            and s = "(init :: int app)\<lparr> currentSession :=
                Some \<lparr> currentSubject = Some ''Maths'', elapsedTime = Some 0, startTime = Some 0,
                       status = Some ''active'' \<rparr>,
               isStudying := True \<rparr>"]
  show ?thesis by simp
qed

text \<open>
  C7. A failing \<^verbatim>\<open>fetchCompletedSubjects\<close> resets the completed-subjects list to the empty
  list. Every other failing read keeps what was held: a failing \<^verbatim>\<open>fetchNotes\<close> leaves the
  notes (and the completed subjects) as they were, a failing \<^verbatim>\<open>fetchCurrentSession\<close> leaves
  the session, a failing \<^verbatim>\<open>fetchSessionStats\<close> returns \<^verbatim>\<open>null\<close> and only logs, and a
  failing cache read leaves the \<open>data\<close> of every hook instance.
\<close>

theorem C7_only_completed_subjects_reset_on_failure:
  "completedSubjects (fetchCompletedSubjects (Inl err) s) = []
   \<and> notes (fetchNotes_settled (Inl err) s) = notes s
   \<and> completedSubjects (fetchNotes_settled (Inl err) s) = completedSubjects s
   \<and> currentSession (fetchCurrentSession (Inl err) s) = currentSession s
   \<and> isStudying (fetchCurrentSession (Inl err) s) = isStudying s
   \<and> fetchSessionStats (Inl err) s = (None, console_error ''Failed to fetch session stats:'' err s)
   \<and> data (hooks (fetchData_settled now r (Inl err) s) i) = data (hooks s i)"
  by (simp add: fetchCompletedSubjects_def fetchNotes_settled_def fetchCurrentSession_def
        fetchSessionStats_def fetchData_settled_def console_error_def Let_def)

text \<open>
  C8. \<^verbatim>\<open>fetchNotes\<close> sets \<open>loadingNotes\<close> when it is called and clears it in its
  \<^verbatim>\<open>finally\<close> block, but the flag should be set for the whole duration of every call, and
  the code does not achieve this when two calls overlap: nothing keeps a second call from
  starting while the first is pending, and the completion of the first, with a response or
  with a failure, clears the flag while the second is still waiting for its response.
\<close>

theorem C8_overlapping_calls_clear_the_flag:
  "loadingNotes (fetchNotes (fetchNotes (init :: int app)))
   \<and> \<not> loadingNotes (fetchNotes_settled (Inr [1, 2]) (fetchNotes (fetchNotes (init :: int app))))
   \<and> \<not> loadingNotes (fetchNotes_settled (Inl \<lparr> name = ''AxiosError'', message = ''Network Error'' \<rparr>)
                         (fetchNotes (fetchNotes (init :: int app))))"
  by (simp add: fetchNotes_def fetchNotes_settled_def console_error_def init_def)

end
